theory Spec2Isabelle
  imports Main "HOL-Library.Word" "HOL-Library.Sublist"
begin

section \<open>JavaScript values used by the pages\<close>

text \<open>
  A JavaScript string is a sequence of UTF-16 code units. The pages only ever handle
  strings and, in one callback argument and in one environment variable, the value
  \<open>undefined\<close>.
\<close>

type_synonym jstring = "16 word list"

datatype jsval = Undefined | Str jstring

text \<open>An ASCII literal of the source, as code units.\<close>

definition ascii :: "string \<Rightarrow> jstring" where
  "ascii cs = map of_char cs"

text \<open>ToBoolean on these values: \<open>undefined\<close> and the empty string are falsy.\<close>

fun truthy :: "jsval \<Rightarrow> bool" where
  "truthy Undefined = False"
| "truthy (Str cs) = (cs \<noteq> [])"

text \<open>\<open>a || b\<close>: the left operand when it is truthy, the right one otherwise.\<close>

definition js_or :: "jsval \<Rightarrow> jsval \<Rightarrow> jsval" where
  "js_or a b = (if truthy a then a else b)"

text \<open>
  \<open>a === b\<close> on these values: same type and, for strings, the same code units.
\<close>

definition strict_eq :: "jsval \<Rightarrow> jsval \<Rightarrow> bool" where
  "strict_eq a b = (a = b)"

section \<open>The signup page (frontend/src/app/sigunp.tsx)\<close>

text \<open>
  The three \<open>useState('')\<close> cells of \<open>SignupPage\<close>. Every value they receive is a DOM
  string (\<open>e.target.value\<close>) or the initial \<open>''\<close>.
\<close>

record signup_state =
  name :: jstring
  email :: jstring
  password :: jstring

definition signup_initial :: signup_state where
  "signup_initial = \<lparr>name = [], email = [], password = []\<rparr>"

text \<open>The state setters returned by \<open>useState\<close>: the next render sees the new value.\<close>

definition setName :: "jstring \<Rightarrow> signup_state \<Rightarrow> signup_state" where
  "setName v s = s\<lparr>name := v\<rparr>"

definition setEmail :: "jstring \<Rightarrow> signup_state \<Rightarrow> signup_state" where
  "setEmail v s = s\<lparr>email := v\<rparr>"

definition setPassword :: "jstring \<Rightarrow> signup_state \<Rightarrow> signup_state" where
  "setPassword v s = s\<lparr>password := v\<rparr>"

text \<open>The change event of an input: only \<open>e.target.value\<close> is read.\<close>

record change_event =
  target_value :: jstring

text \<open>
  The three \<open>onChange\<close> callbacks, \<open>(e) => setName(e.target.value)\<close> and its two
  siblings.
\<close>

definition name_onChange :: "change_event \<Rightarrow> signup_state \<Rightarrow> signup_state" where
  "name_onChange e s = setName (target_value e) s"

definition email_onChange :: "change_event \<Rightarrow> signup_state \<Rightarrow> signup_state" where
  "email_onChange e s = setEmail (target_value e) s"

definition password_onChange :: "change_event \<Rightarrow> signup_state \<Rightarrow> signup_state" where
  "password_onChange e s = setPassword (target_value e) s"

text \<open>
  What a handler does to the world outside the component state: it cancels the event's
  default action, or it opens an alert dialog with a text.
\<close>

datatype effect = PreventDefault | Alert jstring

text \<open>A handler either returns or throws; a thrown value would be the \<open>Inl\<close> branch.\<close>

datatype js_error = Thrown jsval

text \<open>
  The fixed text of the template literal in \<open>handleSignup\<close>, before \<open>${name}\<close>:
  the code points U+062A U+0645, a space, U+0627 U+0644 U+062A U+0633 U+062C U+064A
  U+0644, a colon and a space.
\<close>

definition signup_prefix :: jstring where
  "signup_prefix =
     [0x062A, 0x0645, 0x0020, 0x0627, 0x0644, 0x062A, 0x0633, 0x062C, 0x064A, 0x0644,
      0x003A, 0x0020]"

text \<open>
  \<open>handleSignup\<close>: \<open>e.preventDefault()\<close>, then \<open>alert\<close> of the template literal
  (prefix, \<open>${name}\<close>, \<open>", "\<close>, \<open>${email}\<close>). It calls no setter, so the state it
  returns is the state it was given; the body has no branch and no \<open>throw\<close>.
\<close>

definition handleSignup :: "signup_state \<Rightarrow> js_error + (signup_state \<times> effect list)" where
  "handleSignup s =
     Inr (s, [PreventDefault, Alert (signup_prefix @ name s @ ascii '', '' @ email s)])"

text \<open>
  What \<open>SignupPage\<close> renders, as far as behaviour goes: the three inputs with their
  \<open>type\<close>, \<open>placeholder\<close>, \<open>value\<close> and \<open>required\<close> attributes (class names, the
  heading and the button carry no state).
\<close>

record input_el =
  itype :: jstring
  placeholder :: jstring
  ivalue :: jstring
  required :: bool

record signup_view =
  name_input :: input_el
  email_input :: input_el
  password_input :: input_el

definition SignupPage :: "signup_state \<Rightarrow> signup_view" where
  "SignupPage s =
     \<lparr>name_input =
        \<lparr>itype = ascii ''text'',
         placeholder =
           [0x0627, 0x0644, 0x0627, 0x0633, 0x0645, 0x0020, 0x0627, 0x0644, 0x0643, 0x0627,
            0x0645, 0x0644],
         ivalue = name s,
         required = True\<rparr>,
      email_input =
        \<lparr>itype = ascii ''email'',
         placeholder =
           [0x0627, 0x0644, 0x0628, 0x0631, 0x064A, 0x062F, 0x0020, 0x0627, 0x0644, 0x0625,
            0x0644, 0x0643, 0x062A, 0x0631, 0x0648, 0x0646, 0x064A],
         ivalue = email s,
         required = True\<rparr>,
      password_input =
        \<lparr>itype = ascii ''password'',
         placeholder =
           [0x0643, 0x0644, 0x0645, 0x0629, 0x0020, 0x0627, 0x0644, 0x0645, 0x0631, 0x0648,
            0x0631],
         ivalue = password s,
         required = True\<rparr>\<rparr>"

section \<open>The markdown editor test page (frontend/src/app/markdown-editor-test/page.tsx)\<close>

text \<open>
  The initial document is a template literal. Its value is the cooked text: a backslash
  before a line break continues the line, \<open>\f\<close>, \<open>\r\<close> and \<open>\b\<close> are the form feed
  (0x0C), carriage return (0x0D) and backspace (0x08) escapes, and a backslash before any
  other letter of the text stands for that letter. Every line ends with a line feed.
\<close>

definition unlines :: "jstring list \<Rightarrow> jstring" where
  "unlines ls = concat (map (\<lambda>l. l @ [0x0A]) ls)"

definition initial_markdown :: jstring where
  "initial_markdown = unlines [
      ascii ''**Hello world!!!**'',
      [],
      ascii ''Let'' @ [0x27] @ ascii ''s test LaTeX:'',
      [],
      ascii ''Inline math: $E = mc^2$'',
      [],
      ascii ''Display math (Pandoc style):'',
      [],
      ascii ''$$'',
      ascii ''int_0^infty x^2 e^{-x} dx = 2'',
      ascii ''$$'',
      [],
      ascii ''Display math (GitLab/GitHub style):'',
      [],
      ascii ''math'',
      [0x0C] @ ascii ''rac{d}{dx} left( int_0^x f(u) du '' @ [0x0D] @ ascii ''ight) = f(x)'',
      [],
      ascii ''Another inline example: $alpha + '' @ [0x08] @ ascii ''eta = gamma$.'',
      [],
      ascii ''More complex display equation:'',
      [],
      ascii ''$$'',
      ascii ''sum_{i=1}^{n} i = '' @ [0x0C] @ ascii ''rac{n(n+1)}{2}'',
      ascii ''$$'']"

text \<open>
  The one \<open>useState\<close> cell of the page. At run time the cell holds whatever value
  \<open>setValue\<close> was last called with, so it is a JavaScript value.
\<close>

record md_state =
  md_value :: jsval

definition md_initial :: md_state where
  "md_initial = \<lparr>md_value = Str initial_markdown\<rparr>"

definition setValue :: "jsval \<Rightarrow> md_state \<Rightarrow> md_state" where
  "setValue v s = s\<lparr>md_value := v\<rparr>"

text \<open>
  The editor's callback, \<open>(val) => setValue(val || "")\<close>. The widget declares
  \<open>val\<close> as an optional string: a string or \<open>undefined\<close>.
\<close>

definition onChange :: "jsval \<Rightarrow> md_state \<Rightarrow> md_state" where
  "onChange val s = setValue (js_or val (Str [])) s"

text \<open>A sequence of change events, oldest first, each carrying its \<open>val\<close>.\<close>

definition run_changes :: "md_state \<Rightarrow> jsval list \<Rightarrow> md_state" where
  "run_changes s vals = foldl (\<lambda>st val. onChange val st) s vals"

text \<open>
  What the page hands to the third-party widget: the props of \<open>MDEditor\<close> and of the
  standalone \<open>MDEditor.Markdown\<close>. The widget and the two plugins are packages outside
  this repository; the page only names them.
\<close>

datatype plugin = remarkMath | rehypeKatex

record preview_options =
  remarkPlugins :: "plugin list"
  rehypePlugins :: "plugin list"

record editor_props =
  editor_value :: jsval
  height :: nat
  previewOptions :: preview_options

record markdown_props =
  markdown_source :: jsval
  markdown_plugins :: preview_options

record md_view =
  editor :: editor_props
  standalone :: markdown_props

definition MarkdownEditorTestPage :: "md_state \<Rightarrow> md_view" where
  "MarkdownEditorTestPage s =
     \<lparr>editor =
        \<lparr>editor_value = md_value s,
         height = 500,
         previewOptions = \<lparr>remarkPlugins = [remarkMath], rehypePlugins = [rehypeKatex]\<rparr>\<rparr>,
      standalone =
        \<lparr>markdown_source = md_value s,
         markdown_plugins = \<lparr>remarkPlugins = [remarkMath], rehypePlugins = [rehypeKatex]\<rparr>\<rparr>\<rparr>"

section \<open>The build configuration (next.config.js)\<close>

text \<open>
  The options object passed to \<open>require("next-pwa")\<close>. Its only input is
  \<open>process.env.NODE_ENV\<close>, a string or \<open>undefined\<close>.
\<close>

record pwa_options =
  dest :: jstring
  register :: bool
  skipWaiting :: bool
  disable :: bool

definition pwaOptions :: "jsval \<Rightarrow> pwa_options" where
  "pwaOptions node_env =
     \<lparr>dest = ascii ''public'',
      register = True,
      skipWaiting = True,
      disable = strict_eq node_env (Str (ascii ''development''))\<rparr>"

record next_config =
  reactStrictMode :: bool
  eslint_ignoreDuringBuilds :: bool

definition nextConfig :: next_config where
  "nextConfig = \<lparr>reactStrictMode = True, eslint_ignoreDuringBuilds = True\<rparr>"

section \<open>Properties of the signup page\<close>

text \<open>
  C1: whenever the name, email and password fields are all non-empty, \<open>handleSignup\<close>
  prevents the default form submission and shows one alert whose text contains the
  entered name and the entered email.
\<close>

theorem handleSignup_populated:
  assumes "name s \<noteq> []" and "email s \<noteq> []" and "password s \<noteq> []"
  shows "\<exists>msg. handleSignup s = Inr (s, [PreventDefault, Alert msg])
           \<and> sublist (name s) msg \<and> sublist (email s) msg"
proof -
  let ?msg = "signup_prefix @ name s @ ascii '', '' @ email s"
  have "handleSignup s = Inr (s, [PreventDefault, Alert ?msg])"
    by (simp add: handleSignup_def)
  moreover have "sublist (name s) ?msg"
    by (rule sublist_appendI)
  moreover have "sublist (email s) ?msg"
    using sublist_appendI [of "email s" "signup_prefix @ name s @ ascii '', ''" "[]"]
    by simp
  ultimately show ?thesis by blast
qed

theorem handleSignup_populated_witness:
  "name \<lparr>name = ascii ''Ali'', email = ascii ''a@b.c'', password = ascii ''pw''\<rparr> \<noteq> []
   \<and> email \<lparr>name = ascii ''Ali'', email = ascii ''a@b.c'', password = ascii ''pw''\<rparr> \<noteq> []
   \<and> password \<lparr>name = ascii ''Ali'', email = ascii ''a@b.c'', password = ascii ''pw''\<rparr> \<noteq> []
   \<and> (\<exists>msg. handleSignup
                \<lparr>name = ascii ''Ali'', email = ascii ''a@b.c'', password = ascii ''pw''\<rparr>
              = Inr (\<lparr>name = ascii ''Ali'', email = ascii ''a@b.c'', password = ascii ''pw''\<rparr>,
                     [PreventDefault, Alert msg])
            \<and> sublist (ascii ''Ali'') msg \<and> sublist (ascii ''a@b.c'') msg)"
  using handleSignup_populated
    [of "\<lparr>name = ascii ''Ali'', email = ascii ''a@b.c'', password = ascii ''pw''\<rparr>"]
  by (simp add: ascii_def)

text \<open>
  C2: \<open>handleSignup\<close> has no failure path. For every name, email and password it
  returns normally, never throws, leaves the component state as it was, and its effects
  are exactly two: the default action is prevented and one alert is shown.
\<close>

theorem handleSignup_total:
  "(\<exists>msg. handleSignup s = Inr (s, [PreventDefault, Alert msg]))
   \<and> (\<forall>err. handleSignup s \<noteq> Inl err)"
  unfolding handleSignup_def by simp

text \<open>
  C3: firing the change event of the name, email or password input with a string sets
  the corresponding state cell to that string, and the re-rendered input shows it.
\<close>

theorem onChange_sets_field:
  "name (name_onChange e s) = target_value e
   \<and> ivalue (name_input (SignupPage (name_onChange e s))) = target_value e
   \<and> email (email_onChange e s) = target_value e
   \<and> ivalue (email_input (SignupPage (email_onChange e s))) = target_value e
   \<and> password (password_onChange e s) = target_value e
   \<and> ivalue (password_input (SignupPage (password_onChange e s))) = target_value e"
  by (simp add: name_onChange_def email_onChange_def password_onChange_def
      setName_def setEmail_def setPassword_def SignupPage_def)

text \<open>
  C4: typing into one of the three fields changes only that field's state cell; the
  other two cells keep their values.
\<close>

theorem onChange_frame:
  "email (name_onChange e s) = email s \<and> password (name_onChange e s) = password s
   \<and> name (email_onChange e s) = name s \<and> password (email_onChange e s) = password s
   \<and> name (password_onChange e s) = name s \<and> email (password_onChange e s) = email s"
  by (simp add: name_onChange_def email_onChange_def password_onChange_def
      setName_def setEmail_def setPassword_def)

text \<open>
  C8: the alert text does not depend on the password. Two states with the same name and
  the same email make \<open>handleSignup\<close> show the same alert, whatever their passwords.
\<close>

theorem alert_ignores_password:
  assumes "name s1 = name s2" and "email s1 = email s2"
  shows "\<exists>msg. handleSignup s1 = Inr (s1, [PreventDefault, Alert msg])
           \<and> handleSignup s2 = Inr (s2, [PreventDefault, Alert msg])"
  using assms by (simp add: handleSignup_def)

theorem alert_ignores_password_witness:
  "password \<lparr>name = ascii ''Ali'', email = ascii ''a@b.c'', password = ascii ''pw''\<rparr>
     \<noteq> password \<lparr>name = ascii ''Ali'', email = ascii ''a@b.c'', password = ascii ''other''\<rparr>
   \<and> (\<exists>msg. handleSignup \<lparr>name = ascii ''Ali'', email = ascii ''a@b.c'', password = ascii ''pw''\<rparr>
              = Inr (\<lparr>name = ascii ''Ali'', email = ascii ''a@b.c'', password = ascii ''pw''\<rparr>,
                     [PreventDefault, Alert msg])
            \<and> handleSignup \<lparr>name = ascii ''Ali'', email = ascii ''a@b.c'', password = ascii ''other''\<rparr>
              = Inr (\<lparr>name = ascii ''Ali'', email = ascii ''a@b.c'', password = ascii ''other''\<rparr>,
                     [PreventDefault, Alert msg]))"
  using alert_ignores_password
    [of "\<lparr>name = ascii ''Ali'', email = ascii ''a@b.c'', password = ascii ''pw''\<rparr>"
        "\<lparr>name = ascii ''Ali'', email = ascii ''a@b.c'', password = ascii ''other''\<rparr>"]
  by (simp add: ascii_def)

text \<open>
  C10: \<open>handleSignup\<close> does not check that the fields are filled in. In every state,
  also with an empty name, email or password, it prevents the default action and shows
  the alert built from whatever the cells hold; in the initial state, where all three
  cells are empty, the alert is the fixed text followed by a comma and a space. The
  only trace of a population requirement is the \<open>required\<close> attribute, which all three rendered inputs carry.
\<close>

theorem handleSignup_no_field_check:
  "handleSignup s
     = Inr (s, [PreventDefault, Alert (signup_prefix @ name s @ ascii '', '' @ email s)])
   \<and> handleSignup signup_initial
     = Inr (signup_initial, [PreventDefault, Alert (signup_prefix @ ascii '', '')])
   \<and> required (name_input (SignupPage s))
   \<and> required (email_input (SignupPage s))
   \<and> required (password_input (SignupPage s))"
  by (simp add: handleSignup_def SignupPage_def signup_initial_def)

section \<open>Properties of the markdown editor page\<close>

lemma onChange_string: "md_value (onChange (Str v) s) = Str v"
  by (cases "v = []") (simp_all add: onChange_def setValue_def js_or_def)

lemma onChange_undefined: "md_value (onChange Undefined s) = Str []"
  by (simp add: onChange_def setValue_def js_or_def)

lemma onChange_is_string: "\<exists>cs. md_value (onChange val s) = Str cs"
  by (cases val) (simp_all add: onChange_string onChange_undefined)

lemma run_changes_snoc: "run_changes s (vals @ [val]) = onChange val (run_changes s vals)"
  by (simp add: run_changes_def)

lemma run_changes_keeps_string:
  "\<exists>cs. md_value s = Str cs \<Longrightarrow> \<exists>cs. md_value (run_changes s vals) = Str cs"
proof (induction vals rule: rev_induct)
  case Nil
  then show ?case by (simp add: run_changes_def)
next
  case (snoc val vals)
  show ?case
    unfolding run_changes_snoc by (rule onChange_is_string)
qed

text \<open>
  C5: after any sequence of change events whose last event carries the string \<open>v\<close>,
  the value cell holds \<open>v\<close>, and so does the \<open>value\<close> prop the editor is rendered with.
\<close>

theorem editor_shows_last_typed:
  "md_value (run_changes s (vals @ [Str v])) = Str v
   \<and> editor_value (editor (MarkdownEditorTestPage (run_changes s (vals @ [Str v])))) = Str v"
  by (simp add: run_changes_snoc onChange_string MarkdownEditorTestPage_def)

text \<open>
  C9: the value cell always holds a string. A change event that carries \<open>undefined\<close>
  stores the empty string, and after every sequence of change events from the initial
  state, with or without values, the cell holds a string and not \<open>undefined\<close>.
\<close>

theorem value_always_string:
  "md_value (onChange Undefined s) = Str []
   \<and> (\<exists>cs. md_value (run_changes md_initial vals) = Str cs)
   \<and> md_value (run_changes md_initial vals) \<noteq> Undefined"
proof -
  have init: "\<exists>cs. md_value md_initial = Str cs"
    by (simp add: md_initial_def)
  from run_changes_keeps_string [OF init]
  obtain cs where "md_value (run_changes md_initial vals) = Str cs" by blast
  then show ?thesis by (simp add: onChange_undefined)
qed

text \<open>
  Both preview paths are fed from the value cell and are handed the same two plugins.
\<close>

lemma previews_follow_value:
  "markdown_source (standalone (MarkdownEditorTestPage s)) = md_value s
   \<and> editor_value (editor (MarkdownEditorTestPage s)) = md_value s
   \<and> previewOptions (editor (MarkdownEditorTestPage s))
       = \<lparr>remarkPlugins = [remarkMath], rehypePlugins = [rehypeKatex]\<rparr>
   \<and> markdown_plugins (standalone (MarkdownEditorTestPage s))
       = \<lparr>remarkPlugins = [remarkMath], rehypePlugins = [rehypeKatex]\<rparr>"
  by (simp add: MarkdownEditorTestPage_def)

section \<open>Properties of the build configuration\<close>

text \<open>
  C7: the options passed to the PWA wrapper have destination directory \<open>public\<close>,
  registration on, skip-waiting on, and \<open>disable\<close> true exactly when
  \<open>NODE_ENV\<close> is the string \<open>development\<close>.
\<close>

theorem pwaOptions_fields:
  "dest (pwaOptions node_env) = ascii ''public''
   \<and> register (pwaOptions node_env)
   \<and> skipWaiting (pwaOptions node_env)
   \<and> disable (pwaOptions node_env) = (node_env = Str (ascii ''development''))"
  by (simp add: pwaOptions_def strict_eq_def)

end
